theory Spec2Isabelle
  imports Main
begin

section \<open>Python values read from the catalog provider\<close>

text \<open>
  The service in \<^verbatim>\<open>backend/services/spotify.py\<close> reads the provider's decoded JSON
  (dictionaries with string keys, lists, strings, integers, booleans and \<^verbatim>\<open>None\<close>) and
  builds dictionaries of its own. Both sides are values of one type. A dictionary is an
  association list in insertion order, looked up with \<open>map_of\<close>.
\<close>

datatype pyval =
    PNone
  | PBool bool
  | PInt int
  | PStr string
  | PList "pyval list"
  | PDict "(string \<times> pyval) list"

text \<open>
  Every \<^verbatim>\<open>raise\<close> of the interpreter that the service can meet is a value. \<open>OtherError\<close>
  stands for any exception class of the client library (transport and API failures),
  with its message.
\<close>

datatype py_exn =
    KeyError pyval
  | IndexError
  | TypeError
  | AttributeError
  | ValueError string
  | OtherError string

type_synonym 'a res = "py_exn + 'a"

text \<open>Sequencing: the first exception raised ends the evaluation.\<close>

definition and_then :: "'a res \<Rightarrow> ('a \<Rightarrow> 'b res) \<Rightarrow> 'b res" where
  "and_then m f = (case m of Inl e \<Rightarrow> Inl e | Inr v \<Rightarrow> f v)"

text \<open>Truth value of an object, as \<^verbatim>\<open>if x\<close> and \<^verbatim>\<open>not x\<close> test it.\<close>

fun py_truthy :: "pyval \<Rightarrow> bool" where
  "py_truthy PNone = False"
| "py_truthy (PBool b) = b"
| "py_truthy (PInt i) = (i \<noteq> 0)"
| "py_truthy (PStr s) = (s \<noteq> [])"
| "py_truthy (PList xs) = (xs \<noteq> [])"
| "py_truthy (PDict kvs) = (kvs \<noteq> [])"

text \<open>\<^verbatim>\<open>v[k]\<close> with a string key: only a dictionary accepts it.\<close>

fun py_getitem :: "pyval \<Rightarrow> string \<Rightarrow> pyval res" where
  "py_getitem (PDict kvs) k =
     (case map_of kvs k of None \<Rightarrow> Inl (KeyError (PStr k)) | Some v \<Rightarrow> Inr v)"
| "py_getitem _ k = Inl TypeError"

text \<open>
  \<^verbatim>\<open>v[i]\<close> with an integer: lists and strings count negative indices from the end and
  raise IndexError out of range; a dictionary (whose keys are strings) has no such key.
\<close>

definition norm_index :: "nat \<Rightarrow> int \<Rightarrow> nat option" where
  "norm_index len i =
     (if 0 \<le> i \<and> i < int len then Some (nat i)
      else if i < 0 \<and> - int len \<le> i then Some (nat (int len + i))
      else None)"

fun py_index :: "pyval \<Rightarrow> int \<Rightarrow> pyval res" where
  "py_index (PList xs) i =
     (case norm_index (length xs) i of None \<Rightarrow> Inl IndexError | Some k \<Rightarrow> Inr (xs ! k))"
| "py_index (PStr s) i =
     (case norm_index (length s) i of None \<Rightarrow> Inl IndexError | Some k \<Rightarrow> Inr (PStr [s ! k]))"
| "py_index (PDict kvs) i = Inl (KeyError (PInt i))"
| "py_index _ i = Inl TypeError"

text \<open>\<^verbatim>\<open>v.get(k, d)\<close>: a method of dictionaries only.\<close>

fun py_get :: "pyval \<Rightarrow> string \<Rightarrow> pyval \<Rightarrow> pyval res" where
  "py_get (PDict kvs) k d = Inr (case map_of kvs k of None \<Rightarrow> d | Some v \<Rightarrow> v)"
| "py_get _ k d = Inl AttributeError"

text \<open>
  The elements a \<^verbatim>\<open>for\<close> loop or a comprehension visits: the elements of a list, the
  characters of a string, the keys of a dictionary; anything else is not iterable.
\<close>

fun py_iter :: "pyval \<Rightarrow> pyval list res" where
  "py_iter (PList xs) = Inr xs"
| "py_iter (PStr s) = Inr (map (\<lambda>c. PStr [c]) s)"
| "py_iter (PDict kvs) = Inr (map (\<lambda>kv. PStr (fst kv)) kvs)"
| "py_iter _ = Inl TypeError"

text \<open>\<^verbatim>\<open>sep.join(xs)\<close>: every element must be a string.\<close>

fun join_strs :: "string \<Rightarrow> string list \<Rightarrow> string" where
  "join_strs sep [] = []"
| "join_strs sep [s] = s"
| "join_strs sep (s # t # ss) = s @ sep @ join_strs sep (t # ss)"

fun strs_of :: "pyval list \<Rightarrow> string list res" where
  "strs_of [] = Inr []"
| "strs_of (PStr s # vs) = and_then (strs_of vs) (\<lambda>ss. Inr (s # ss))"
| "strs_of (_ # vs) = Inl TypeError"

definition py_join :: "string \<Rightarrow> pyval list \<Rightarrow> pyval res" where
  "py_join sep vs = and_then (strs_of vs) (\<lambda>ss. Inr (PStr (join_strs sep ss)))"

text \<open>
  A \<^verbatim>\<open>for\<close> loop that maps each item and appends the result to \<open>tracks\<close>; the first
  item whose mapping raises ends the loop with that exception.
\<close>

fun for_append :: "(pyval \<Rightarrow> pyval res) \<Rightarrow> pyval list \<Rightarrow> pyval list \<Rightarrow> pyval list res" where
  "for_append f [] tracks = Inr tracks"
| "for_append f (item # items) tracks =
     (case f item of Inl e \<Rightarrow> Inl e | Inr track \<Rightarrow> for_append f items (tracks @ [track]))"

section \<open>The service\<close>

subsection \<open>Construction\<close>

text \<open>
  The module \<^verbatim>\<open>config\<close> is imported and not part of the sources: its two attributes are
  parameters. So are the two constructors of the client library; each call to the
  library is recorded, so that "nothing of the library ran" can be said.
\<close>

record config =
  SPOTIFY_CLIENT_ID :: pyval
  SPOTIFY_CLIENT_SECRET :: pyval

datatype lib_call =
    NewSpotifyClientCredentials pyval pyval
  | NewSpotify

record 'c spotify_service =
  client :: 'c

definition init ::
  "(pyval \<Rightarrow> pyval \<Rightarrow> 'm) \<Rightarrow> ('m \<Rightarrow> 'c) \<Rightarrow> config \<Rightarrow> 'c spotify_service res \<times> lib_call list" where
  "init SpotifyClientCredentials Spotify cfg =
     (if \<not> py_truthy (SPOTIFY_CLIENT_ID cfg) \<or> \<not> py_truthy (SPOTIFY_CLIENT_SECRET cfg)
      then (Inl (ValueError
        ''Spotify credentials not configured. Set SPOTIFY_CLIENT_ID and SPOTIFY_CLIENT_SECRET''), [])
      else
        let client_credentials_manager =
              SpotifyClientCredentials (SPOTIFY_CLIENT_ID cfg) (SPOTIFY_CLIENT_SECRET cfg)
        in (Inr \<lparr>client = Spotify client_credentials_manager\<rparr>,
            [NewSpotifyClientCredentials (SPOTIFY_CLIENT_ID cfg) (SPOTIFY_CLIENT_SECRET cfg),
             NewSpotify]))"

subsection \<open>The client library and what is observed of a call\<close>

text \<open>
  \<^verbatim>\<open>self.client\<close> is the library's client object. Of its methods the service calls four,
  each of which returns the decoded response or raises. Within one operation no two
  requests are equal (the offsets of the page requests increase), so a reply that is a
  function of the request covers a provider that answers each request as it likes.
\<close>

record spotify_client =
  search :: "string \<Rightarrow> string \<Rightarrow> int \<Rightarrow> pyval res"
  track :: "string \<Rightarrow> pyval res"
  album :: "string \<Rightarrow> pyval res"
  album_tracks :: "string \<Rightarrow> int \<Rightarrow> int \<Rightarrow> pyval res"

datatype request =
    Search string string int
  | Track string
  | Album string
  | AlbumTracks string int int

text \<open>
  A line written by \<^verbatim>\<open>print\<close>: a text, or the f-string of a text followed by a caught
  exception.
\<close>

datatype line =
    Text string
  | TextExn string py_exn

text \<open>
  What an operation does: the value it returns (or the exception it raises), the
  requests it sent to the provider in order, and the lines it printed in order.
\<close>

record 'a outcome =
  result :: 'a
  calls :: "request list"
  printed :: "line list"

subsection \<open>Expressions shared by the four mappings\<close>

text \<open>The comprehension \<^verbatim>\<open>[artist['name'] for artist in xs]\<close>.\<close>

fun map_res :: "('a \<Rightarrow> 'b res) \<Rightarrow> 'a list \<Rightarrow> 'b list res" where
  "map_res f [] = Inr []"
| "map_res f (x # xs) =
     and_then (f x) (\<lambda>y. and_then (map_res f xs) (\<lambda>ys. Inr (y # ys)))"

definition name_list :: "pyval res \<Rightarrow> pyval list res" where
  "name_list xs =
     and_then (and_then xs py_iter) (map_res (\<lambda>artist. py_getitem artist ''name''))"

text \<open>\<^verbatim>\<open>imgs[0]['url'] if imgs else None\<close>: the condition is evaluated first, then one branch.\<close>

definition album_art_of :: "pyval res \<Rightarrow> pyval res" where
  "album_art_of imgs =
     and_then imgs (\<lambda>c.
       if py_truthy c
       then and_then (and_then imgs (\<lambda>l. py_index l 0)) (\<lambda>im. py_getitem im ''url'')
       else Inr PNone)"

subsection \<open>search_tracks\<close>

definition search_track :: "pyval \<Rightarrow> pyval res" where
  "search_track item =
     and_then (py_getitem item ''id'') (\<lambda>v_id.
     and_then (py_getitem item ''name'') (\<lambda>v_name.
     and_then (name_list (py_getitem item ''artists'')) (\<lambda>v_artists.
     and_then (and_then (name_list (py_getitem item ''artists'')) (py_join '', '')) (\<lambda>v_artist.
     and_then (and_then (py_getitem item ''album'') (\<lambda>a. py_getitem a ''name'')) (\<lambda>v_album.
     and_then (and_then (py_getitem item ''album'') (\<lambda>a. py_getitem a ''id'')) (\<lambda>v_album_id.
     and_then (py_getitem item ''duration_ms'') (\<lambda>v_duration_ms.
     and_then (and_then (py_getitem item ''external_urls'') (\<lambda>u. py_getitem u ''spotify''))
       (\<lambda>v_external_url.
     and_then (py_get item ''preview_url'' PNone) (\<lambda>v_preview_url.
     and_then (album_art_of
         (and_then (py_getitem item ''album'') (\<lambda>a. py_getitem a ''images''))) (\<lambda>v_album_art.
     and_then (and_then (py_getitem item ''album'') (\<lambda>a. py_get a ''release_date'' (PStr [])))
       (\<lambda>v_release_date.
     Inr (PDict
       [(''id'', v_id),
        (''name'', v_name),
        (''artists'', PList v_artists),
        (''artist'', v_artist),
        (''album'', v_album),
        (''album_id'', v_album_id),
        (''duration_ms'', v_duration_ms),
        (''external_url'', v_external_url),
        (''preview_url'', v_preview_url),
        (''album_art'', v_album_art),
        (''release_date'', v_release_date)]))))))))))))"

text \<open>\<^verbatim>\<open>results[kind]['items']\<close>, as the \<^verbatim>\<open>for\<close> loop visits it.\<close>

definition result_items :: "string \<Rightarrow> pyval \<Rightarrow> pyval list res" where
  "result_items kind results =
     and_then (and_then (py_getitem results kind) (\<lambda>t. py_getitem t ''items'')) py_iter"

definition search_tracks ::
  "spotify_client spotify_service \<Rightarrow> string \<Rightarrow> int \<Rightarrow> pyval list res outcome" where
  "search_tracks self query limit =
     (case and_then (search (client self) query ''track'' limit) (\<lambda>results.
             and_then (result_items ''tracks'' results) (\<lambda>items.
             for_append search_track items [])) of
        Inr tracks \<Rightarrow>
          \<lparr>result = Inr tracks, calls = [Search query ''track'' limit], printed = []\<rparr>
      | Inl e \<Rightarrow>
          \<lparr>result = Inl e, calls = [Search query ''track'' limit],
           printed = [TextExn ''Spotify search error: '' e]\<rparr>)"

subsection \<open>get_track_details\<close>

definition track_details :: "pyval \<Rightarrow> pyval res" where
  "track_details trk =
     and_then (py_getitem trk ''id'') (\<lambda>v_id.
     and_then (py_getitem trk ''name'') (\<lambda>v_name.
     and_then (name_list (py_getitem trk ''artists'')) (\<lambda>v_artists.
     and_then (and_then (name_list (py_getitem trk ''artists'')) (py_join '', '')) (\<lambda>v_artist.
     and_then (name_list (and_then (py_getitem trk ''album'') (\<lambda>a. py_getitem a ''artists'')))
       (\<lambda>v_album_artists.
     and_then (and_then
         (name_list (and_then (py_getitem trk ''album'') (\<lambda>a. py_getitem a ''artists'')))
         (py_join '', '')) (\<lambda>v_album_artist.
     and_then (and_then (py_getitem trk ''album'') (\<lambda>a. py_getitem a ''name'')) (\<lambda>v_album.
     and_then (and_then (py_getitem trk ''album'') (\<lambda>a. py_getitem a ''id'')) (\<lambda>v_album_id.
     and_then (py_getitem trk ''duration_ms'') (\<lambda>v_duration_ms.
     and_then (and_then (py_getitem trk ''external_urls'') (\<lambda>u. py_getitem u ''spotify''))
       (\<lambda>v_external_url.
     and_then (py_get trk ''preview_url'' PNone) (\<lambda>v_preview_url.
     and_then (py_get trk ''track_number'' (PInt 1)) (\<lambda>v_track_number.
     and_then (album_art_of
         (and_then (py_getitem trk ''album'') (\<lambda>a. py_getitem a ''images''))) (\<lambda>v_album_art.
     and_then (and_then (py_getitem trk ''album'') (\<lambda>a. py_get a ''release_date'' (PStr [])))
       (\<lambda>v_release_date.
     Inr (PDict
       [(''id'', v_id),
        (''name'', v_name),
        (''artists'', PList v_artists),
        (''artist'', v_artist),
        (''album_artists'', PList v_album_artists),
        (''album_artist'', v_album_artist),
        (''album'', v_album),
        (''album_id'', v_album_id),
        (''duration_ms'', v_duration_ms),
        (''external_url'', v_external_url),
        (''preview_url'', v_preview_url),
        (''track_number'', v_track_number),
        (''album_art'', v_album_art),
        (''release_date'', v_release_date)])))))))))))))))"

definition get_track_details ::
  "spotify_client spotify_service \<Rightarrow> string \<Rightarrow> pyval option outcome" where
  "get_track_details self track_id =
     (case and_then (track (client self) track_id) track_details of
        Inr d \<Rightarrow> \<lparr>result = Some d, calls = [Track track_id], printed = []\<rparr>
      | Inl e \<Rightarrow>
          \<lparr>result = None, calls = [Track track_id],
           printed = [TextExn ''Error fetching track details: '' e]\<rparr>)"

subsection \<open>search_albums\<close>

definition search_album :: "pyval \<Rightarrow> pyval res" where
  "search_album item =
     and_then (py_getitem item ''id'') (\<lambda>v_id.
     and_then (py_getitem item ''name'') (\<lambda>v_name.
     and_then (and_then (name_list (py_getitem item ''artists'')) (py_join '', '')) (\<lambda>v_artist.
     and_then (name_list (py_getitem item ''artists'')) (\<lambda>v_artists.
     and_then (py_get item ''release_date'' (PStr [])) (\<lambda>v_release_date.
     and_then (py_get item ''total_tracks'' (PInt 0)) (\<lambda>v_total_tracks.
     and_then (album_art_of (py_getitem item ''images'')) (\<lambda>v_album_art.
     and_then (and_then (py_getitem item ''external_urls'') (\<lambda>u. py_getitem u ''spotify''))
       (\<lambda>v_external_url.
     Inr (PDict
       [(''id'', v_id),
        (''name'', v_name),
        (''artist'', v_artist),
        (''artists'', PList v_artists),
        (''release_date'', v_release_date),
        (''total_tracks'', v_total_tracks),
        (''album_art'', v_album_art),
        (''external_url'', v_external_url)])))))))))"

definition search_albums ::
  "spotify_client spotify_service \<Rightarrow> string \<Rightarrow> int \<Rightarrow> pyval list res outcome" where
  "search_albums self query limit =
     (case and_then (search (client self) query ''album'' limit) (\<lambda>results.
             and_then (result_items ''albums'' results) (\<lambda>items.
             for_append search_album items [])) of
        Inr albums \<Rightarrow>
          \<lparr>result = Inr albums, calls = [Search query ''album'' limit], printed = []\<rparr>
      | Inl e \<Rightarrow>
          \<lparr>result = Inl e, calls = [Search query ''album'' limit],
           printed = [TextExn ''Spotify album search error: '' e]\<rparr>)"

subsection \<open>get_album_details\<close>

text \<open>The dictionary built for one item of a page of the album \<open>alb\<close> (both loops).\<close>

definition album_track :: "pyval \<Rightarrow> pyval \<Rightarrow> pyval res" where
  "album_track alb item =
     and_then (py_getitem item ''id'') (\<lambda>v_id.
     and_then (py_getitem item ''name'') (\<lambda>v_name.
     and_then (name_list (py_getitem item ''artists'')) (\<lambda>v_artists.
     and_then (and_then (name_list (py_getitem item ''artists'')) (py_join '', '')) (\<lambda>v_artist.
     and_then (py_getitem alb ''name'') (\<lambda>v_album.
     and_then (py_getitem alb ''id'') (\<lambda>v_album_id.
     and_then (py_getitem item ''duration_ms'') (\<lambda>v_duration_ms.
     and_then (py_getitem item ''track_number'') (\<lambda>v_track_number.
     and_then (and_then (py_getitem item ''external_urls'') (\<lambda>u. py_getitem u ''spotify''))
       (\<lambda>v_external_url.
     and_then (py_get item ''preview_url'' PNone) (\<lambda>v_preview_url.
     and_then (album_art_of (py_getitem alb ''images'')) (\<lambda>v_album_art.
     and_then (py_get alb ''release_date'' (PStr [])) (\<lambda>v_release_date.
     Inr (PDict
       [(''id'', v_id),
        (''name'', v_name),
        (''artists'', PList v_artists),
        (''artist'', v_artist),
        (''album'', v_album),
        (''album_id'', v_album_id),
        (''duration_ms'', v_duration_ms),
        (''track_number'', v_track_number),
        (''external_url'', v_external_url),
        (''preview_url'', v_preview_url),
        (''album_art'', v_album_art),
        (''release_date'', v_release_date)])))))))))))))"

definition pagination_warning :: "string \<Rightarrow> line" where
  "pagination_warning album_id =
     Text (''Warning: Stopped pagination at 1000 tracks for album '' @ album_id)"

text \<open>
  The \<^verbatim>\<open>while True\<close> loop, entered with the offset, the tracks and the requests so far.
  It returns the tracks (or the exception that ended it), the requests and what it
  printed.
\<close>

function paginate ::
  "spotify_client \<Rightarrow> string \<Rightarrow> pyval \<Rightarrow> int \<Rightarrow> pyval list \<Rightarrow> request list
     \<Rightarrow> pyval list res \<times> request list \<times> line list" where
  "paginate c album_id alb offset tracks reqs =
     (case album_tracks c album_id 50 offset of
        Inl e \<Rightarrow> (Inl e, reqs @ [AlbumTracks album_id 50 offset], [])
      | Inr next_page \<Rightarrow>
          (case py_getitem next_page ''items'' of
             Inl e \<Rightarrow> (Inl e, reqs @ [AlbumTracks album_id 50 offset], [])
           | Inr page_items \<Rightarrow>
               if \<not> py_truthy page_items
               then (Inr tracks, reqs @ [AlbumTracks album_id 50 offset], [])
               else
                 (case and_then (and_then (py_getitem next_page ''items'') py_iter)
                         (\<lambda>items. for_append (album_track alb) items tracks) of
                    Inl e \<Rightarrow> (Inl e, reqs @ [AlbumTracks album_id 50 offset], [])
                  | Inr tracks' \<Rightarrow>
                      (case py_get next_page ''next'' PNone of
                         Inl e \<Rightarrow> (Inl e, reqs @ [AlbumTracks album_id 50 offset], [])
                       | Inr nxt \<Rightarrow>
                           if \<not> py_truthy nxt
                           then (Inr tracks', reqs @ [AlbumTracks album_id 50 offset], [])
                           else if offset + 50 \<ge> 1000
                           then (Inr tracks', reqs @ [AlbumTracks album_id 50 offset],
                                 [pagination_warning album_id])
                           else paginate c album_id alb (offset + 50) tracks'
                                  (reqs @ [AlbumTracks album_id 50 offset])))))"
  by pat_completeness auto
termination
  by (relation "measure (\<lambda>(c, album_id, alb, offset, tracks, reqs). nat (1000 - offset))") auto

declare paginate.simps [simp del]

definition album_record :: "pyval \<Rightarrow> pyval list \<Rightarrow> pyval res" where
  "album_record alb tracks =
     and_then (py_getitem alb ''id'') (\<lambda>v_id.
     and_then (py_getitem alb ''name'') (\<lambda>v_name.
     and_then (and_then (name_list (py_getitem alb ''artists'')) (py_join '', '')) (\<lambda>v_artist.
     and_then (name_list (py_getitem alb ''artists'')) (\<lambda>v_artists.
     and_then (py_get alb ''release_date'' (PStr [])) (\<lambda>v_release_date.
     and_then (py_get alb ''total_tracks'' (PInt 0)) (\<lambda>v_total_tracks.
     and_then (album_art_of (py_getitem alb ''images'')) (\<lambda>v_album_art.
     and_then (and_then (py_getitem alb ''external_urls'') (\<lambda>u. py_getitem u ''spotify''))
       (\<lambda>v_external_url.
     Inr (PDict
       [(''id'', v_id),
        (''name'', v_name),
        (''artist'', v_artist),
        (''artists'', PList v_artists),
        (''release_date'', v_release_date),
        (''total_tracks'', v_total_tracks),
        (''album_art'', v_album_art),
        (''external_url'', v_external_url),
        (''tracks'', PList tracks)])))))))))"

text \<open>The body of the \<^verbatim>\<open>try\<close>: the first page, the pagination, the record.\<close>

definition album_details_body ::
  "spotify_client \<Rightarrow> string \<Rightarrow> pyval res \<times> request list \<times> line list" where
  "album_details_body c album_id =
     (case album c album_id of
        Inl e \<Rightarrow> (Inl e, [Album album_id], [])
      | Inr alb \<Rightarrow>
          (case and_then (result_items ''tracks'' alb)
                  (\<lambda>items. for_append (album_track alb) items []) of
             Inl e \<Rightarrow> (Inl e, [Album album_id], [])
           | Inr tracks \<Rightarrow>
               (case and_then (py_getitem alb ''tracks'') (\<lambda>t. py_get t ''next'' PNone) of
                  Inl e \<Rightarrow> (Inl e, [Album album_id], [])
                | Inr nxt \<Rightarrow>
                    (case (if py_truthy nxt
                           then paginate c album_id alb (int (length tracks)) tracks
                                  [Album album_id]
                           else (Inr tracks, [Album album_id], [])) of
                       (Inl e, reqs, out) \<Rightarrow> (Inl e, reqs, out)
                     | (Inr tracks', reqs, out) \<Rightarrow> (album_record alb tracks', reqs, out)))))"

definition get_album_details ::
  "spotify_client spotify_service \<Rightarrow> string \<Rightarrow> pyval option outcome" where
  "get_album_details self album_id =
     (case album_details_body (client self) album_id of
        (Inr d, reqs, out) \<Rightarrow> \<lparr>result = Some d, calls = reqs, printed = out\<rparr>
      | (Inl e, reqs, out) \<Rightarrow>
          \<lparr>result = None, calls = reqs,
           printed = out @ [TextExn ''Error fetching album details: '' e]\<rparr>)"

section \<open>Properties read off the specification\<close>

text \<open>
  The joined artist string of a record, against its own artist list: the value under
  \<open>str_key\<close> is what \<^verbatim>\<open>', '.join\<close> gives on the list under \<open>list_key\<close>.
\<close>

definition artist_joined :: "string \<Rightarrow> string \<Rightarrow> pyval \<Rightarrow> bool" where
  "artist_joined list_key str_key r =
     (case (py_getitem r list_key, py_getitem r str_key) of
        (Inr (PList names), Inr s) \<Rightarrow> py_join '', '' names = Inr s
      | _ \<Rightarrow> False)"

text \<open>
  The album-art field against the provider's image list: null for the empty list, the
  \<^verbatim>\<open>url\<close> of the first image otherwise.
\<close>

definition album_art_ok :: "pyval list \<Rightarrow> pyval \<Rightarrow> bool" where
  "album_art_ok images art =
     (case images of [] \<Rightarrow> art = PNone | im # _ \<Rightarrow> py_getitem im ''url'' = Inr art)"

definition art_matches :: "pyval res \<Rightarrow> pyval \<Rightarrow> bool" where
  "art_matches images r =
     (case images of
        Inr (PList imgs) \<Rightarrow>
          (case py_getitem r ''album_art'' of Inr art \<Rightarrow> album_art_ok imgs art | Inl _ \<Rightarrow> False)
      | _ \<Rightarrow> True)"

text \<open>The four fields a track of an album shares with the album record \<open>d\<close>.\<close>

definition shares_album_fields :: "pyval \<Rightarrow> pyval \<Rightarrow> bool" where
  "shares_album_fields d t =
     (case (py_getitem d ''name'', py_getitem d ''id'', py_getitem d ''album_art'',
            py_getitem d ''release_date'') of
        (Inr v_name, Inr v_id, Inr v_art, Inr v_date) \<Rightarrow>
          py_getitem t ''album'' = Inr v_name \<and> py_getitem t ''album_id'' = Inr v_id \<and>
          py_getitem t ''album_art'' = Inr v_art \<and> py_getitem t ''release_date'' = Inr v_date
      | _ \<Rightarrow> False)"

section \<open>Example providers\<close>

text \<open>Responses in the provider's format, and clients that serve them.\<close>

definition ex_names :: "string list \<Rightarrow> pyval" where
  "ex_names names = PList (map (\<lambda>n. PDict [(''name'', PStr n)]) names)"

definition ex_images :: "string list \<Rightarrow> pyval" where
  "ex_images urls = PList (map (\<lambda>u. PDict [(''url'', PStr u)]) urls)"

text \<open>An item of a track search: it has neither a track number nor a preview.\<close>

definition ex_track_item :: "string list \<Rightarrow> string list \<Rightarrow> pyval" where
  "ex_track_item artists urls =
     PDict
       [(''id'', PStr ''trk1''),
        (''name'', PStr ''Imagine''),
        (''artists'', ex_names artists),
        (''album'', PDict
           [(''id'', PStr ''alb1''),
            (''name'', PStr ''Imagine (album)''),
            (''artists'', ex_names [''John Lennon'']),
            (''images'', ex_images urls),
            (''release_date'', PStr ''1971-09-09'')]),
        (''duration_ms'', PInt 183000),
        (''external_urls'', PDict [(''spotify'', PStr ''https://open.example/trk1'')])]"

definition ex_album_item :: "string list \<Rightarrow> string list \<Rightarrow> pyval" where
  "ex_album_item artists urls =
     PDict
       [(''id'', PStr ''alb1''),
        (''name'', PStr ''Imagine (album)''),
        (''artists'', ex_names artists),
        (''images'', ex_images urls),
        (''total_tracks'', PInt 10),
        (''external_urls'', PDict [(''spotify'', PStr ''https://open.example/alb1'')])]"

text \<open>A client that answers every search with the given items and every track lookup
  with the given track; it has no albums.\<close>

definition ex_search_client :: "pyval list \<Rightarrow> pyval \<Rightarrow> spotify_client" where
  "ex_search_client items trk =
     \<lparr>search = (\<lambda>q kind limit. Inr (PDict [(kind @ ''s'', PDict [(''items'', PList items)])])),
      track = (\<lambda>track_id. Inr trk),
      album = (\<lambda>album_id. Inl (OtherError ''404'')),
      album_tracks = (\<lambda>album_id limit offset. Inl (OtherError ''404''))\<rparr>"

text \<open>A client whose every call fails, and one whose searches succeed with an empty object.\<close>

definition ex_failing_client :: spotify_client where
  "ex_failing_client =
     \<lparr>search = (\<lambda>q kind limit. Inl (OtherError ''timeout'')),
      track = (\<lambda>track_id. Inl (OtherError ''timeout'')),
      album = (\<lambda>album_id. Inl (OtherError ''timeout'')),
      album_tracks = (\<lambda>album_id limit offset. Inl (OtherError ''timeout''))\<rparr>"

definition ex_empty_reply_client :: spotify_client where
  "ex_empty_reply_client =
     \<lparr>search = (\<lambda>q kind limit. Inr (PDict [])),
      track = (\<lambda>track_id. Inr (PDict [])),
      album = (\<lambda>album_id. Inr (PDict [])),
      album_tracks = (\<lambda>album_id limit offset. Inr (PDict []))\<rparr>"

text \<open>
  An album of \<open>n_total\<close> tracks served in pages. \<open>ex_page_item i\<close> is the item of track
  \<open>i + 1\<close>, \<open>ex_page\<close> a page with its continuation indicator.
\<close>

definition ex_page_item :: "nat \<Rightarrow> pyval" where
  "ex_page_item i =
     PDict
       [(''id'', PStr ''trk''),
        (''name'', PStr ''Part''),
        (''artists'', ex_names [''Ensemble'']),
        (''duration_ms'', PInt 60000),
        (''track_number'', PInt (int i + 1)),
        (''external_urls'', PDict [(''spotify'', PStr ''https://open.example/trk'')])]"

definition ex_page :: "pyval list \<Rightarrow> bool \<Rightarrow> pyval" where
  "ex_page items remaining =
     PDict
       [(''items'', PList items),
        (''next'', if remaining then PStr ''https://api.example/next'' else PNone)]"

definition ex_album :: "pyval \<Rightarrow> int \<Rightarrow> pyval" where
  "ex_album first_page n_total =
     PDict
       [(''id'', PStr ''alb9''),
        (''name'', PStr ''Complete Works''),
        (''artists'', ex_names [''Ensemble'']),
        (''images'', ex_images [''https://img.example/640'', ''https://img.example/300'']),
        (''release_date'', PStr ''2001''),
        (''total_tracks'', PInt n_total),
        (''external_urls'', PDict [(''spotify'', PStr ''https://open.example/alb9'')]),
        (''tracks'', first_page)]"

text \<open>
  The provider of an album of \<open>n_total\<close> tracks whose pages hold at most \<open>cap\<close> tracks: a
  page starts at the requested offset, has no more tracks than the limit asks for, and
  carries the continuation indicator exactly while tracks remain after it. \<open>embedded\<close> is
  the size of the page that comes with the album itself.
\<close>

definition ex_paged_client :: "nat \<Rightarrow> nat \<Rightarrow> nat \<Rightarrow> spotify_client" where
  "ex_paged_client n_total embedded cap =
     \<lparr>search = (\<lambda>q kind limit. Inl (OtherError ''404'')),
      track = (\<lambda>track_id. Inl (OtherError ''404'')),
      album = (\<lambda>album_id. Inr (ex_album
         (ex_page (map ex_page_item [0..<min embedded n_total]) (embedded < n_total)) (int n_total))),
      album_tracks = (\<lambda>album_id limit offset. Inr
         (ex_page (map ex_page_item [nat offset..<min (nat offset + min cap (nat limit)) n_total])
            (nat offset + min cap (nat limit) < n_total)))\<rparr>"

text \<open>
  A provider that never stops: every page holds one track and says that more follow.
\<close>

definition ex_endless_client :: spotify_client where
  "ex_endless_client =
     \<lparr>search = (\<lambda>q kind limit. Inl (OtherError ''404'')),
      track = (\<lambda>track_id. Inl (OtherError ''404'')),
      album = (\<lambda>album_id. Inr (ex_album (ex_page [ex_page_item 0] True) 1)),
      album_tracks = (\<lambda>album_id limit offset. Inr (ex_page [ex_page_item (nat offset)] True))\<rparr>"

section \<open>Basic facts\<close>

lemma and_then_Inr [simp]: "and_then (Inr v) f = f v"
  by (simp add: and_then_def)

lemma and_then_Inl [simp]: "and_then (Inl e) f = Inl e"
  by (simp add: and_then_def)

lemma and_then_eq_Inr [simp]: "and_then m f = Inr r \<longleftrightarrow> (\<exists>v. m = Inr v \<and> f v = Inr r)"
  by (cases m) simp_all

section \<open>Construction of the client\<close>

text \<open>
  C4. Constructing the service with a missing (\<^verbatim>\<open>None\<close>) or empty client identifier, or a
  missing or empty client secret, raises the configuration error (a ValueError) and no
  constructor of the client library has been called by then, so nothing can have reached
  the network. With both credentials non-empty strings the construction returns a service.
  The constructor raises exactly when one of the two values is falsy, and whenever it
  raises the library has not been called.
\<close>

theorem init_credentials:
  "((SPOTIFY_CLIENT_ID cfg \<in> {PNone, PStr []} \<or> SPOTIFY_CLIENT_SECRET cfg \<in> {PNone, PStr []})
      \<longrightarrow> (\<exists>msg. init mk_creds mk_client cfg = (Inl (ValueError msg), [])))
   \<and> ((\<exists>a b. a \<noteq> [] \<and> b \<noteq> [] \<and> SPOTIFY_CLIENT_ID cfg = PStr a \<and> SPOTIFY_CLIENT_SECRET cfg = PStr b)
      \<longrightarrow> (\<exists>svc libcalls. init mk_creds mk_client cfg = (Inr svc, libcalls)))
   \<and> ((\<exists>e. fst (init mk_creds mk_client cfg) = Inl e)
      \<longleftrightarrow> \<not> py_truthy (SPOTIFY_CLIENT_ID cfg) \<or> \<not> py_truthy (SPOTIFY_CLIENT_SECRET cfg))
   \<and> ((\<exists>e. fst (init mk_creds mk_client cfg) = Inl e) \<longrightarrow> snd (init mk_creds mk_client cfg) = [])"
  by (auto simp: init_def Let_def)

theorem init_credentials_witness:
  "(\<exists>msg. init Pair id \<lparr>SPOTIFY_CLIENT_ID = PStr ''abc'', SPOTIFY_CLIENT_SECRET = PStr []\<rparr>
       = (Inl (ValueError msg), []))
   \<and> (\<exists>msg. init Pair id \<lparr>SPOTIFY_CLIENT_ID = PNone, SPOTIFY_CLIENT_SECRET = PStr ''s3cret''\<rparr>
       = (Inl (ValueError msg), []))
   \<and> (\<exists>svc libcalls.
        init Pair id \<lparr>SPOTIFY_CLIENT_ID = PStr ''abc'', SPOTIFY_CLIENT_SECRET = PStr ''s3cret''\<rparr>
       = (Inr svc, libcalls))"
  using init_credentials [of "\<lparr>SPOTIFY_CLIENT_ID = PStr ''abc'', SPOTIFY_CLIENT_SECRET = PStr []\<rparr>" Pair id]
    init_credentials [of "\<lparr>SPOTIFY_CLIENT_ID = PNone, SPOTIFY_CLIENT_SECRET = PStr ''s3cret''\<rparr>" Pair id]
    init_credentials [of "\<lparr>SPOTIFY_CLIENT_ID = PStr ''abc'', SPOTIFY_CLIENT_SECRET = PStr ''s3cret''\<rparr>" Pair id]
  by simp

end
